theory Spec2Isabelle
  imports Complex_Main "HOL-Library.Word" "HOL-Library.Multiset"
    "HOL-Library.Char_ord" "HOL-Library.List_Lexorder"
begin

section \<open>Financial data submission portal: data access and caching layer\<close>

text \<open>
  This theory embeds the data operations of \<^verbatim>\<open>streamlit_app.py\<close>:
  \<^verbatim>\<open>get_databricks_connection\<close>, \<^verbatim>\<open>submit_financial_data\<close>,
  \<^verbatim>\<open>fetch_all_data\<close>, \<^verbatim>\<open>get_summary_stats\<close> and the submit branch of
  \<^verbatim>\<open>show_data_entry_form\<close>.

  Conventions of the embedding.
  \<^item> Python floats (and the DOUBLE columns of the table) are idealised as \<open>real\<close>:
    rounding, infinities and NaN are outside the model.
  \<^item> A Python call that may raise returns \<open>exn + 'a\<close>; \<open>Inl msg\<close> is a raised
    \<^verbatim>\<open>Exception\<close> whose \<^verbatim>\<open>str(e)\<close> is \<open>msg\<close>.
  \<^item> Everything the program reads from outside (the clock, the random UUID, whether
    \<^verbatim>\<open>sql.connect\<close> or a cursor operation raises, the order in which the SQL engine
    enumerates rows) is a field of an explicit environment \<open>env\<close>, one per call.
  \<^item> Everything that persists between calls (the table, the entry of
    \<^verbatim>\<open>st.cache_resource\<close>, the two entries of \<^verbatim>\<open>st.cache_data\<close>) is a field of
    the state \<open>world\<close>, passed in and returned.
  \<^item> \<^verbatim>\<open>st.error\<close>, \<^verbatim>\<open>st.success\<close> and the other rendering calls only draw on the
    page; they are left out.
\<close>

subsection \<open>Data model\<close>

type_synonym exn = string
type_synonym timestamp = real

text \<open>One row of the table \<^verbatim>\<open>financial_submissions\<close>, with the columns of the INSERT statement.\<close>

record submission =
  submission_id :: string
  business_unit :: string
  submission_date :: timestamp
  revenue :: real
  expenses :: real
  profit_margin :: real
  submitted_by :: string
  created_at :: timestamp

text \<open>One row of the GROUP BY query of \<^verbatim>\<open>get_summary_stats\<close>; \<open>summary_unit\<close> is its
  column \<^verbatim>\<open>business_unit\<close>.\<close>

record summary_row =
  summary_unit :: string
  submission_count :: nat
  total_revenue :: real
  total_expenses :: real
  avg_profit_margin :: real

text \<open>The handle returned by \<^verbatim>\<open>sql.connect\<close>; the program only tests it and calls
  \<^verbatim>\<open>cursor()\<close> on it.\<close>

datatype connection = Connection nat

text \<open>The cursor operation that raises during a call, if any, with its message.\<close>

datatype fault =
    No_fault
  | Cursor_raises exn
  | Execute_raises exn
  | Fetchall_raises exn
  | Close_raises exn

record env =
  clock :: timestamp
  connect_outcome :: "exn + connection"
  fault :: fault
  uuid4 :: "128 word"
  datetime_now :: "timestamp \<times> timestamp"
  scan :: "submission list \<Rightarrow> submission list"

text \<open>
  \<open>clock\<close> is the reading of the cache timer during the call, \<open>connect_outcome\<close> what
  \<^verbatim>\<open>sql.connect\<close> (with the lookups in \<^verbatim>\<open>st.secrets\<close>) does if it is called,
  \<open>uuid4\<close> the 128-bit value of \<^verbatim>\<open>uuid.uuid4()\<close>, \<open>datetime_now\<close> the two successive
  readings of \<^verbatim>\<open>datetime.now()\<close>, and \<open>scan\<close> the order in which the SQL engine
  enumerates the rows of the table before it groups and sorts them (SQL leaves the
  order of rows with equal sort keys to the engine).
\<close>

record world =
  financial_submissions :: "submission list"
  connection_cache :: "connection option option"
  fetch_all_data_cache :: "(timestamp \<times> submission list) option"
  get_summary_stats_cache :: "(timestamp \<times> summary_row list) option"

text \<open>
  \<open>connection_cache\<close> is the entry of \<^verbatim>\<open>st.cache_resource\<close> for
  \<^verbatim>\<open>get_databricks_connection\<close>: \<open>None\<close> when nothing is stored, \<open>Some v\<close> when the
  return value \<open>v\<close> is stored, where \<open>v = None\<close> is Python's \<^verbatim>\<open>None\<close>. The two
  \<^verbatim>\<open>st.cache_data\<close> entries hold the stored DataFrame with the time it was stored.
  A DataFrame is the list of its rows; \<^verbatim>\<open>pd.DataFrame()\<close> is \<open>[]\<close>.
\<close>

subsection \<open>The Streamlit cache decorators\<close>

text \<open>
  \<^verbatim>\<open>st.cache_resource\<close> and \<^verbatim>\<open>st.cache_data\<close> memoise the value a function
  returns, whatever it is (also \<^verbatim>\<open>None\<close> or an empty DataFrame); an exception that
  leaves the function is passed on and nothing is stored. An entry of
  \<^verbatim>\<open>st.cache_data(ttl=30)\<close> is valid while the timer is below the time of storing plus
  the ttl.
\<close>

definition cache_resource :: "'a option \<Rightarrow> (exn + 'a) \<Rightarrow> (exn + 'a) \<times> 'a option" where
  "cache_resource entry run =
     (case entry of
        Some v \<Rightarrow> (Inr v, entry)
      | None \<Rightarrow> (case run of Inl e \<Rightarrow> (Inl e, None) | Inr v \<Rightarrow> (Inr v, Some v)))"

definition cache_data_lookup :: "real \<Rightarrow> timestamp \<Rightarrow> (timestamp \<times> 'a) option \<Rightarrow> 'a option" where
  "cache_data_lookup ttl now entry =
     (case entry of
        None \<Rightarrow> None
      | Some (stored_at, v) \<Rightarrow> if now < stored_at + ttl then Some v else None)"

definition cache_data_clear :: "world \<Rightarrow> world" where
  "cache_data_clear w = w\<lparr>fetch_all_data_cache := None, get_summary_stats_cache := None\<rparr>"

subsection \<open>The database cursor\<close>

definition connection_cursor :: "env \<Rightarrow> exn + unit" where
  "connection_cursor env = (case fault env of Cursor_raises e \<Rightarrow> Inl e | _ \<Rightarrow> Inr ())"

definition cursor_close :: "env \<Rightarrow> exn + unit" where
  "cursor_close env = (case fault env of Close_raises e \<Rightarrow> Inl e | _ \<Rightarrow> Inr ())"

definition cursor_fetchall :: "env \<Rightarrow> 'a \<Rightarrow> exn + 'a" where
  "cursor_fetchall env result = (case fault env of Fetchall_raises e \<Rightarrow> Inl e | _ \<Rightarrow> Inr result)"

text \<open>\<^verbatim>\<open>INSERT INTO financial_submissions (...) VALUES (...)\<close>: the row is appended, or the
  statement raises and the table is as before.\<close>

definition execute_insert :: "env \<Rightarrow> submission \<Rightarrow> submission list \<Rightarrow> exn + submission list" where
  "execute_insert env row tbl =
     (case fault env of Execute_raises e \<Rightarrow> Inl e | _ \<Rightarrow> Inr (tbl @ [row]))"

text \<open>\<^verbatim>\<open>ORDER BY key DESC\<close>: a stable insertion sort, largest key first, of the rows in the
  order the engine enumerates them.\<close>

fun insert_desc :: "('a \<Rightarrow> real) \<Rightarrow> 'a \<Rightarrow> 'a list \<Rightarrow> 'a list" where
  "insert_desc key x [] = [x]"
| "insert_desc key x (y # ys) =
     (if key y \<le> key x then x # y # ys else y # insert_desc key x ys)"

definition order_by_desc :: "('a \<Rightarrow> real) \<Rightarrow> 'a list \<Rightarrow> 'a list" where
  "order_by_desc key xs = foldr (insert_desc key) xs []"

text \<open>\<^verbatim>\<open>SELECT * FROM financial_submissions ORDER BY submission_date DESC LIMIT 100\<close>.\<close>

definition select_recent :: "env \<Rightarrow> submission list \<Rightarrow> submission list" where
  "select_recent env tbl = take 100 (order_by_desc submission_date (scan env tbl))"

text \<open>The GROUP BY query of \<^verbatim>\<open>get_summary_stats\<close>: one row per business unit of the
  table, with COUNT, SUM, SUM and AVG over the rows of the unit, then
  \<^verbatim>\<open>ORDER BY total_revenue DESC\<close>. The groups come out in the order in which the
  engine meets their first row.\<close>

definition group_rows :: "string \<Rightarrow> submission list \<Rightarrow> submission list" where
  "group_rows bu tbl = filter (\<lambda>r. business_unit r = bu) tbl"

definition aggregate :: "submission list \<Rightarrow> string \<Rightarrow> summary_row" where
  "aggregate tbl bu =
     (let g = group_rows bu tbl in
      \<lparr>summary_unit = bu,
       submission_count = length g,
       total_revenue = sum_list (map revenue g),
       total_expenses = sum_list (map expenses g),
       avg_profit_margin = sum_list (map profit_margin g) / real (length g)\<rparr>)"

definition group_keys :: "env \<Rightarrow> submission list \<Rightarrow> string list" where
  "group_keys env tbl = rev (remdups (rev (map business_unit (scan env tbl))))"

definition select_summary :: "env \<Rightarrow> submission list \<Rightarrow> summary_row list" where
  "select_summary env tbl = order_by_desc total_revenue (map (aggregate tbl) (group_keys env tbl))"

subsection \<open>Connection\<close>

text \<open>The body of \<^verbatim>\<open>get_databricks_connection\<close>: the \<^verbatim>\<open>try\<close> returns the handle, the
  \<^verbatim>\<open>except Exception\<close> returns \<^verbatim>\<open>None\<close>.\<close>

definition get_databricks_connection_body :: "env \<Rightarrow> exn + connection option" where
  "get_databricks_connection_body env =
     (case connect_outcome env of
        Inr connection' \<Rightarrow> Inr (Some connection')
      | Inl e \<Rightarrow> Inr None)"

text \<open>The function as decorated with \<^verbatim>\<open>@st.cache_resource\<close>.\<close>

definition get_databricks_connection :: "env \<Rightarrow> world \<Rightarrow> (exn + connection option) \<times> world" where
  "get_databricks_connection env w =
     (case cache_resource (connection_cache w) (get_databricks_connection_body env) of
        (r, entry) \<Rightarrow> (r, w\<lparr>connection_cache := entry\<rparr>))"

subsection \<open>Submission\<close>

text \<open>\<^verbatim>\<open>uuid.uuid4().hex\<close> is \<^verbatim>\<open>'%032x' % self.int\<close>: 32 lowercase hexadecimal digits,
  most significant first.\<close>

definition hex_digit :: "nat \<Rightarrow> char" where
  "hex_digit d = ''0123456789abcdef'' ! (d mod 16)"

definition uuid_hex :: "128 word \<Rightarrow> string" where
  "uuid_hex u = map (\<lambda>i. hex_digit (unat u div 16 ^ (31 - i))) [0..<32]"

definition make_submission_id :: "128 word \<Rightarrow> string" where
  "make_submission_id u = ''sub_'' @ take 8 (uuid_hex u)"

definition derive_profit_margin :: "real \<Rightarrow> real \<Rightarrow> real" where
  "derive_profit_margin revenue' expenses' =
     (if revenue' > 0 then (revenue' - expenses') / revenue' * 100 else 0)"

text \<open>The \<^verbatim>\<open>try\<close> block of \<^verbatim>\<open>submit_financial_data\<close>, from \<^verbatim>\<open>connection.cursor()\<close> to
  \<^verbatim>\<open>return True, submission_id\<close>; the table is part of the result because a raise in
  \<^verbatim>\<open>cursor.close()\<close> comes after the INSERT.\<close>

definition submit_try ::
  "string \<Rightarrow> real \<Rightarrow> real \<Rightarrow> string \<Rightarrow> env \<Rightarrow> submission list
     \<Rightarrow> (exn + (bool \<times> string)) \<times> submission list" where
  "submit_try business_unit' revenue' expenses' submitted_by' env tbl =
     (case connection_cursor env of
        Inl e \<Rightarrow> (Inl e, tbl)
      | Inr _ \<Rightarrow>
          (let submission_id' = make_submission_id (uuid4 env);
               profit_margin' = derive_profit_margin revenue' expenses';
               row = \<lparr>submission_id = submission_id',
                      business_unit = business_unit',
                      submission_date = fst (datetime_now env),
                      revenue = revenue',
                      expenses = expenses',
                      profit_margin = profit_margin',
                      submitted_by = submitted_by',
                      created_at = snd (datetime_now env)\<rparr>
           in case execute_insert env row tbl of
                Inl e \<Rightarrow> (Inl e, tbl)
              | Inr tbl' \<Rightarrow>
                  (case cursor_close env of
                     Inl e \<Rightarrow> (Inl e, tbl')
                   | Inr _ \<Rightarrow> (Inr (True, submission_id'), tbl'))))"

text \<open>\<^verbatim>\<open>submit_financial_data\<close>: the call of \<^verbatim>\<open>get_databricks_connection\<close> stands
  before the \<^verbatim>\<open>try\<close>, so an exception of it would leave the function; the
  \<^verbatim>\<open>except Exception\<close> turns every exception of the block into
  \<^verbatim>\<open>(False, str(e))\<close>.\<close>

definition submit_financial_data ::
  "string \<Rightarrow> real \<Rightarrow> real \<Rightarrow> string \<Rightarrow> env \<Rightarrow> world \<Rightarrow> (exn + (bool \<times> string)) \<times> world" where
  "submit_financial_data business_unit' revenue' expenses' submitted_by' env w =
     (case get_databricks_connection env w of
        (Inl e, w1) \<Rightarrow> (Inl e, w1)
      | (Inr None, w1) \<Rightarrow> (Inr (False, ''Connection failed''), w1)
      | (Inr (Some connection'), w1) \<Rightarrow>
          (case submit_try business_unit' revenue' expenses' submitted_by' env
                  (financial_submissions w1) of
             (Inr result, tbl) \<Rightarrow> (Inr result, w1\<lparr>financial_submissions := tbl\<rparr>)
           | (Inl e, tbl) \<Rightarrow> (Inr (False, e), w1\<lparr>financial_submissions := tbl\<rparr>)))"

subsection \<open>Cached reads\<close>

text \<open>\<^verbatim>\<open>cursor.execute\<close> of a SELECT: the statement raises, or its result set is ready
  for \<^verbatim>\<open>fetchall\<close>.\<close>

definition execute_select :: "env \<Rightarrow> 'a \<Rightarrow> exn + 'a" where
  "execute_select env result = (case fault env of Execute_raises e \<Rightarrow> Inl e | _ \<Rightarrow> Inr result)"

text \<open>The \<^verbatim>\<open>try\<close> block of \<^verbatim>\<open>fetch_all_data\<close>. The columns are reals already, so the
  three \<^verbatim>\<open>pd.to_numeric\<close> conversions leave the rows as they are.\<close>

definition fetch_all_data_try :: "env \<Rightarrow> submission list \<Rightarrow> exn + submission list" where
  "fetch_all_data_try env tbl =
     (case connection_cursor env of
        Inl e \<Rightarrow> Inl e
      | Inr _ \<Rightarrow>
          (case execute_select env (select_recent env tbl) of
             Inl e \<Rightarrow> Inl e
           | Inr result \<Rightarrow>
               (case cursor_fetchall env result of
                  Inl e \<Rightarrow> Inl e
                | Inr data \<Rightarrow>
                    (case cursor_close env of
                       Inl e \<Rightarrow> Inl e
                     | Inr _ \<Rightarrow> Inr data))))"

text \<open>The undecorated \<^verbatim>\<open>fetch_all_data\<close>: no connection and every exception of the
  block give \<^verbatim>\<open>pd.DataFrame()\<close>.\<close>

definition fetch_all_data_body :: "env \<Rightarrow> world \<Rightarrow> (exn + submission list) \<times> world" where
  "fetch_all_data_body env w =
     (case get_databricks_connection env w of
        (Inl e, w1) \<Rightarrow> (Inl e, w1)
      | (Inr None, w1) \<Rightarrow> (Inr [], w1)
      | (Inr (Some connection'), w1) \<Rightarrow>
          (case fetch_all_data_try env (financial_submissions w1) of
             Inr df \<Rightarrow> (Inr df, w1)
           | Inl e \<Rightarrow> (Inr [], w1)))"

text \<open>The function as decorated with \<^verbatim>\<open>@st.cache_data(ttl=30)\<close>.\<close>

definition fetch_all_data :: "env \<Rightarrow> world \<Rightarrow> (exn + submission list) \<times> world" where
  "fetch_all_data env w =
     (case cache_data_lookup 30 (clock env) (fetch_all_data_cache w) of
        Some df \<Rightarrow> (Inr df, w)
      | None \<Rightarrow>
          (case fetch_all_data_body env w of
             (Inl e, w1) \<Rightarrow> (Inl e, w1)
           | (Inr df, w1) \<Rightarrow> (Inr df, w1\<lparr>fetch_all_data_cache := Some (clock env, df)\<rparr>)))"

definition get_summary_stats_try :: "env \<Rightarrow> submission list \<Rightarrow> exn + summary_row list" where
  "get_summary_stats_try env tbl =
     (case connection_cursor env of
        Inl e \<Rightarrow> Inl e
      | Inr _ \<Rightarrow>
          (case execute_select env (select_summary env tbl) of
             Inl e \<Rightarrow> Inl e
           | Inr result \<Rightarrow>
               (case cursor_fetchall env result of
                  Inl e \<Rightarrow> Inl e
                | Inr data \<Rightarrow>
                    (case cursor_close env of
                       Inl e \<Rightarrow> Inl e
                     | Inr _ \<Rightarrow> Inr data))))"

definition get_summary_stats_body :: "env \<Rightarrow> world \<Rightarrow> (exn + summary_row list) \<times> world" where
  "get_summary_stats_body env w =
     (case get_databricks_connection env w of
        (Inl e, w1) \<Rightarrow> (Inl e, w1)
      | (Inr None, w1) \<Rightarrow> (Inr [], w1)
      | (Inr (Some connection'), w1) \<Rightarrow>
          (case get_summary_stats_try env (financial_submissions w1) of
             Inr df \<Rightarrow> (Inr df, w1)
           | Inl e \<Rightarrow> (Inr [], w1)))"

definition get_summary_stats :: "env \<Rightarrow> world \<Rightarrow> (exn + summary_row list) \<times> world" where
  "get_summary_stats env w =
     (case cache_data_lookup 30 (clock env) (get_summary_stats_cache w) of
        Some df \<Rightarrow> (Inr df, w)
      | None \<Rightarrow>
          (case get_summary_stats_body env w of
             (Inl e, w1) \<Rightarrow> (Inl e, w1)
           | (Inr df, w1) \<Rightarrow> (Inr df, w1\<lparr>get_summary_stats_cache := Some (clock env, df)\<rparr>)))"

subsection \<open>The form\<close>

text \<open>What the widgets of \<^verbatim>\<open>show_data_entry_form\<close> hand to the script in one run, and
  what the submit branch (\<^verbatim>\<open>if submitted:\<close>) makes of it. The select box offers the
  six units Sales, Marketing, Operations, Engineering, Finance and HR, and both number
  inputs have \<^verbatim>\<open>min_value=0.0\<close>; the branch itself takes the values as they come.
  After a success it calls \<^verbatim>\<open>st.cache_data.clear()\<close> and \<^verbatim>\<open>st.rerun()\<close>, which ends
  the run: the next run of the script starts from the state returned here.\<close>

record form_input =
  selected_business_unit :: string
  entered_revenue :: real
  entered_expenses :: real
  entered_submitted_by :: string
  submitted :: bool

datatype form_outcome =
    Not_submitted
  | Submission_succeeded string
  | Submission_failed string

definition show_data_entry_form :: "form_input \<Rightarrow> env \<Rightarrow> world \<Rightarrow> (exn + form_outcome) \<times> world" where
  "show_data_entry_form f env w =
     (if submitted f then
        (case submit_financial_data (selected_business_unit f) (entered_revenue f)
                (entered_expenses f) (entered_submitted_by f) env w of
           (Inl e, w1) \<Rightarrow> (Inl e, w1)
         | (Inr (success, result), w1) \<Rightarrow>
             if success then (Inr (Submission_succeeded result), cache_data_clear w1)
             else (Inr (Submission_failed result), w1))
      else (Inr Not_submitted, w))"

subsection \<open>States the program can be in\<close>

definition initial_world :: "submission list \<Rightarrow> world" where
  "initial_world tbl =
     \<lparr>financial_submissions = tbl, connection_cache = None,
      fetch_all_data_cache = None, get_summary_stats_cache = None\<rparr>"

text \<open>A process starts with empty caches on any table; then the operations run in any
  order, with any environment, and other writers may change the table in between.\<close>

inductive reachable :: "world \<Rightarrow> bool" where
  start: "reachable (initial_world tbl)"
| other_writer: "reachable w \<Longrightarrow> reachable (w\<lparr>financial_submissions := tbl\<rparr>)"
| connect: "reachable w \<Longrightarrow> reachable (snd (get_databricks_connection env w))"
| submit: "reachable w \<Longrightarrow> reachable (snd (submit_financial_data bu r x sb env w))"
| form: "reachable w \<Longrightarrow> reachable (snd (show_data_entry_form f env w))"
| fetch: "reachable w \<Longrightarrow> reachable (snd (fetch_all_data env w))"
| summary: "reachable w \<Longrightarrow> reachable (snd (get_summary_stats env w))"
| refresh: "reachable w \<Longrightarrow> reachable (cache_data_clear w)"

subsection \<open>Properties the claims speak about\<close>

definition sorted_desc :: "('a \<Rightarrow> real) \<Rightarrow> 'a list \<Rightarrow> bool" where
  "sorted_desc key xs = sorted_wrt (\<lambda>a b. key b \<le> key a) xs"

definition is_lower_hex :: "char \<Rightarrow> bool" where
  "is_lower_hex c = (c \<in> set ''0123456789abcdef'')"

text \<open>The pattern \<^verbatim>\<open>sub_[0-9a-f]{8}\<close>.\<close>

definition matches_submission_id :: "string \<Rightarrow> bool" where
  "matches_submission_id s =
     (length s = 12 \<and> take 4 s = ''sub_'' \<and> list_all is_lower_hex (drop 4 s))"

text \<open>Total revenue descending, equal totals by unit name ascending.\<close>

definition summary_before :: "summary_row \<Rightarrow> summary_row \<Rightarrow> bool" where
  "summary_before a b =
     (total_revenue b < total_revenue a
      \<or> (total_revenue a = total_revenue b \<and> summary_unit a \<le> summary_unit b))"

definition ordered_with_ties_by_name :: "summary_row list \<Rightarrow> bool" where
  "ordered_with_ties_by_name rows = sorted_wrt summary_before rows"

text \<open>What every result of \<^verbatim>\<open>fetch_all_data\<close> has to satisfy, and the same for the
  entries of the two read caches.\<close>

definition recent_ok :: "submission list \<Rightarrow> bool" where
  "recent_ok df = (length df \<le> 100 \<and> sorted_desc submission_date df)"

definition caches_ok :: "world \<Rightarrow> bool" where
  "caches_ok w =
     ((case fetch_all_data_cache w of None \<Rightarrow> True | Some (t, df) \<Rightarrow> recent_ok df)
      \<and> (case get_summary_stats_cache w of
            None \<Rightarrow> True
          | Some (t, rows) \<Rightarrow> sorted_desc total_revenue rows))"

text \<open>A summary row whose count and average are those of the stored rows of its unit:
  the average is the mean of the stored \<^verbatim>\<open>profit_margin\<close> values.\<close>

definition mean_of_stored_margins :: "submission list \<Rightarrow> summary_row \<Rightarrow> bool" where
  "mean_of_stored_margins tbl s =
     (group_rows (summary_unit s) tbl \<noteq> []
      \<and> submission_count s = length (group_rows (summary_unit s) tbl)
      \<and> avg_profit_margin s
          = sum_list (map profit_margin (group_rows (summary_unit s) tbl))
              / real (length (group_rows (summary_unit s) tbl)))"

text \<open>A fetch fails when there is no connection or a cursor operation raises.\<close>

definition fetch_fails :: "env \<Rightarrow> world \<Rightarrow> bool" where
  "fetch_fails env w =
     (fst (get_databricks_connection env w) = Inr None \<or> fault env \<noteq> No_fault)"

subsection \<open>Example inputs\<close>

text \<open>An environment in which the backend is reachable and nothing raises.\<close>

definition healthy_env :: env where
  "healthy_env =
     \<lparr>clock = 0, connect_outcome = Inr (Connection 1), fault = No_fault, uuid4 = 0,
      datetime_now = (0, 0), scan = (\<lambda>tbl. tbl)\<rparr>"

definition example_row :: "string \<Rightarrow> real \<Rightarrow> real \<Rightarrow> real \<Rightarrow> timestamp \<Rightarrow> submission" where
  "example_row bu r x m t =
     \<lparr>submission_id = ''sub_00000000'', business_unit = bu, submission_date = t,
      revenue = r, expenses = x, profit_margin = m, submitted_by = ''Alice'',
      created_at = t\<rparr>"

definition tie_table :: "submission list" where
  "tie_table = [example_row ''Sales'' 100 50 50 1, example_row ''HR'' 100 80 20 2]"

definition margins_table :: "submission list" where
  "margins_table =
     [example_row ''Sales'' 100 50 50 1, example_row ''HR'' 100 80 20 2,
      example_row ''Sales'' 300 0 100 3]"

definition example_form :: form_input where
  "example_form =
     \<lparr>selected_business_unit = ''Sales'', entered_revenue = 100000, entered_expenses = 75000,
      entered_submitted_by = ''Alice'', submitted = True\<rparr>"

definition cached_world :: world where
  "cached_world =
     (initial_world [])\<lparr>fetch_all_data_cache := Some (0, []),
                        get_summary_stats_cache := Some (0, [])\<rparr>"

definition failing_env :: env where
  "failing_env = healthy_env\<lparr>fault := Execute_raises ''timeout''\<rparr>"

definition later_env :: env where
  "later_env = healthy_env\<lparr>clock := 10\<rparr>"

section \<open>Verification\<close>

subsection \<open>The connection never raises and leaves table and read caches alone\<close>

lemma get_databricks_connection_returns:
  "\<exists>c. fst (get_databricks_connection env w) = Inr c"
  by (simp add: get_databricks_connection_def cache_resource_def
      get_databricks_connection_body_def split: option.splits sum.splits prod.splits)

lemma get_databricks_connection_table:
  "financial_submissions (snd (get_databricks_connection env w)) = financial_submissions w"
  by (simp add: get_databricks_connection_def split: prod.splits)

lemma get_databricks_connection_data_caches:
  "fetch_all_data_cache (snd (get_databricks_connection env w)) = fetch_all_data_cache w"
  "get_summary_stats_cache (snd (get_databricks_connection env w)) = get_summary_stats_cache w"
  by (simp_all add: get_databricks_connection_def split: prod.splits)

subsection \<open>What a submission writes\<close>

lemma submit_try_table:
  "snd (submit_try bu r x sb env tbl) = tbl \<or>
   (\<exists>row. snd (submit_try bu r x sb env tbl) = tbl @ [row] \<and>
      submission_id row = make_submission_id (uuid4 env) \<and>
      business_unit row = bu \<and> revenue row = r \<and> expenses row = x \<and>
      submitted_by row = sb \<and> profit_margin row = derive_profit_margin r x)"
  by (auto simp: submit_try_def execute_insert_def Let_def split: sum.splits fault.splits)

lemma submit_financial_data_table:
  "financial_submissions (snd (submit_financial_data bu r x sb env w)) =
     (case fst (get_databricks_connection env w) of
        Inr (Some c) \<Rightarrow> snd (submit_try bu r x sb env (financial_submissions w))
      | _ \<Rightarrow> financial_submissions w)"
  using get_databricks_connection_table [of env w]
  by (auto simp: submit_financial_data_def split: prod.splits sum.splits option.splits)

lemmas run_submit =
  submit_financial_data_def get_databricks_connection_def cache_resource_def
  get_databricks_connection_body_def submit_try_def connection_cursor_def
  execute_insert_def cursor_close_def Let_def

text \<open>
  Claim C1. Whenever \<^verbatim>\<open>submit_financial_data\<close> writes to the table, it appends exactly
  one row; the row carries the caller's revenue and expenses, and its profit margin is
  \<open>(revenue - expenses) / revenue * 100\<close> when the revenue is positive and \<open>0\<close> when
  the revenue is zero. The margin is computed from these two arguments alone: the
  function has no parameter for it. (Floats are read as reals.)
\<close>

theorem profit_margin_derived:
  assumes "financial_submissions (snd (submit_financial_data bu r x sb env w))
             \<noteq> financial_submissions w"
  shows "\<exists>row. financial_submissions (snd (submit_financial_data bu r x sb env w))
                 = financial_submissions w @ [row]
           \<and> revenue row = r \<and> expenses row = x
           \<and> (0 < r \<longrightarrow> profit_margin row = (r - x) / r * 100)
           \<and> (r = 0 \<longrightarrow> profit_margin row = 0)"
proof -
  let ?tbl = "financial_submissions w"
  from assms have written: "snd (submit_try bu r x sb env ?tbl) \<noteq> ?tbl"
    and after: "financial_submissions (snd (submit_financial_data bu r x sb env w))
                  = snd (submit_try bu r x sb env ?tbl)"
    by (auto simp: submit_financial_data_table split: sum.splits option.splits)
  from written submit_try_table [of bu r x sb env ?tbl]
  obtain row where "snd (submit_try bu r x sb env ?tbl) = ?tbl @ [row]"
    and "revenue row = r" and "expenses row = x"
    and "profit_margin row = derive_profit_margin r x"
    by blast
  with after show ?thesis
    by (auto simp: derive_profit_margin_def)
qed

theorem profit_margin_derived_witness:
  "financial_submissions
     (snd (submit_financial_data ''Sales'' 100000 75000 ''Alice'' healthy_env (initial_world [])))
     \<noteq> financial_submissions (initial_world [])
   \<and> map profit_margin (financial_submissions
        (snd (submit_financial_data ''Sales'' 100000 75000 ''Alice'' healthy_env
           (initial_world [])))) = [25]
   \<and> financial_submissions
       (snd (submit_financial_data ''Sales'' 0 500 ''Alice'' healthy_env (initial_world [])))
       \<noteq> financial_submissions (initial_world [])
   \<and> map profit_margin (financial_submissions
        (snd (submit_financial_data ''Sales'' 0 500 ''Alice'' healthy_env
           (initial_world [])))) = [0]"
proof -
  have written: "financial_submissions
     (snd (submit_financial_data ''Sales'' 100000 75000 ''Alice'' healthy_env (initial_world [])))
     \<noteq> financial_submissions (initial_world [])"
    by (simp add: run_submit healthy_env_def initial_world_def)
  have written0: "financial_submissions
     (snd (submit_financial_data ''Sales'' 0 500 ''Alice'' healthy_env (initial_world [])))
     \<noteq> financial_submissions (initial_world [])"
    by (simp add: run_submit healthy_env_def initial_world_def)
  from profit_margin_derived [OF written] profit_margin_derived [OF written0]
    written written0 show ?thesis
    by (auto simp: initial_world_def)
qed

subsection \<open>Submission identifiers\<close>

lemma hex_digit_lower: "is_lower_hex (hex_digit d)"
proof -
  have "d mod 16 < length ''0123456789abcdef''" by simp
  then show ?thesis
    unfolding is_lower_hex_def hex_digit_def by (rule nth_mem)
qed

lemma length_uuid_hex: "length (uuid_hex u) = 32"
  by (simp add: uuid_hex_def)

lemma uuid_hex_lower: "list_all is_lower_hex (uuid_hex u)"
  by (simp add: uuid_hex_def list_all_iff hex_digit_lower)

lemma list_all_take: "list_all P xs \<Longrightarrow> list_all P (take n xs)"
  by (auto simp: list_all_iff dest: in_set_takeD)

lemma make_submission_id_matches: "matches_submission_id (make_submission_id u)"
  by (simp add: matches_submission_id_def make_submission_id_def length_uuid_hex
      list_all_take uuid_hex_lower)

text \<open>
  Claim C9. Every \<^verbatim>\<open>submission_id\<close> that \<^verbatim>\<open>submit_financial_data\<close> returns on success,
  and so every one it writes, is \<^verbatim>\<open>sub_\<close> followed by exactly eight characters from
  \<^verbatim>\<open>0123456789abcdef\<close>.
\<close>

theorem submission_id_format:
  assumes "fst (submit_financial_data bu r x sb env w) = Inr (True, sid)"
  shows "matches_submission_id sid"
proof -
  obtain c where "fst (get_databricks_connection env w) = Inr c"
    using get_databricks_connection_returns by blast
  with assms have "sid = make_submission_id (uuid4 env)"
    by (auto simp: submit_financial_data_def submit_try_def Let_def
        split: prod.splits sum.splits option.splits)
  then show ?thesis
    by (simp add: make_submission_id_matches)
qed

lemma take_uuid_hex:
  "take 8 (uuid_hex u) = map (\<lambda>i. hex_digit (unat u div 16 ^ (31 - i))) [0..<8]"
  by (simp add: uuid_hex_def take_map)

lemma upt8: "[0..<8] = [0, 1, 2, 3, 4, 5, 6, 7]"
  by (simp add: upt_rec)

lemma example_submission_id:
  "make_submission_id 0x123e4567e89b42d3a456426614174000 = ''sub_123e4567''"
  by (simp add: make_submission_id_def take_uuid_hex upt8 hex_digit_def)

theorem submission_id_format_witness:
  "fst (submit_financial_data ''Sales'' 100000 75000 ''Alice''
          (healthy_env\<lparr>uuid4 := 0x123e4567e89b42d3a456426614174000\<rparr>) (initial_world []))
     = Inr (True, ''sub_123e4567'')
   \<and> matches_submission_id ''sub_123e4567''"
proof -
  have ok: "fst (submit_financial_data ''Sales'' 100000 75000 ''Alice''
                   (healthy_env\<lparr>uuid4 := 0x123e4567e89b42d3a456426614174000\<rparr>)
                   (initial_world [])) = Inr (True, ''sub_123e4567'')"
    by (simp add: run_submit healthy_env_def initial_world_def example_submission_id)
  from submission_id_format [OF ok] ok show ?thesis
    by simp
qed

subsection \<open>Submission never raises\<close>

lemma submit_try_result:
  "fst (submit_try bu r x sb env tbl) =
     (case fault env of
        No_fault \<Rightarrow> Inr (True, make_submission_id (uuid4 env))
      | Fetchall_raises e \<Rightarrow> Inr (True, make_submission_id (uuid4 env))
      | Cursor_raises e \<Rightarrow> Inl e
      | Execute_raises e \<Rightarrow> Inl e
      | Close_raises e \<Rightarrow> Inl e)"
  by (simp add: submit_try_def connection_cursor_def execute_insert_def cursor_close_def
      Let_def split: fault.splits)

lemma submit_financial_data_result:
  "fst (submit_financial_data bu r x sb env w) =
     (case fst (get_databricks_connection env w) of
        Inl e \<Rightarrow> Inl e
      | Inr None \<Rightarrow> Inr (False, ''Connection failed'')
      | Inr (Some c) \<Rightarrow>
          (case fst (submit_try bu r x sb env (financial_submissions w)) of
             Inr result \<Rightarrow> Inr result
           | Inl e \<Rightarrow> Inr (False, e)))"
proof -
  obtain rc w1 where conn: "get_databricks_connection env w = (rc, w1)"
    by (cases "get_databricks_connection env w")
  with get_databricks_connection_table [of env w]
  have same: "financial_submissions w1 = financial_submissions w"
    by simp
  obtain res tbl where tried: "submit_try bu r x sb env (financial_submissions w) = (res, tbl)"
    by (cases "submit_try bu r x sb env (financial_submissions w)")
  from conn same tried show ?thesis
    by (simp add: submit_financial_data_def split: sum.splits option.splits)
qed

text \<open>
  Claim C10. For every input, environment and state, \<^verbatim>\<open>submit_financial_data\<close> returns
  a pair and raises nothing. When the first component is \<^verbatim>\<open>True\<close> the second is the
  generated identifier; when it is \<^verbatim>\<open>False\<close> the second is the text
  \<^verbatim>\<open>Connection failed\<close> or the message of the exception that a cursor operation
  raised. Both failures are strings in the same position, so the kind of failure
  cannot be told from the type.
\<close>

theorem submit_total:
  "\<exists>success payload.
     fst (submit_financial_data bu r x sb env w) = Inr (success, payload) \<and>
     (if success then payload = make_submission_id (uuid4 env)
      else payload = ''Connection failed''
           \<or> fault env \<in> {Cursor_raises payload, Execute_raises payload, Close_raises payload})"
proof -
  obtain c where c: "fst (get_databricks_connection env w) = Inr c"
    using get_databricks_connection_returns by blast
  show ?thesis
  proof (cases c)
    case None
    with c show ?thesis
      by (auto simp: submit_financial_data_result)
  next
    case (Some h)
    with c have "fst (submit_financial_data bu r x sb env w) =
      (case fault env of
        No_fault \<Rightarrow> Inr (True, make_submission_id (uuid4 env))
      | Fetchall_raises e \<Rightarrow> Inr (True, make_submission_id (uuid4 env))
      | Cursor_raises e \<Rightarrow> Inr (False, e)
      | Execute_raises e \<Rightarrow> Inr (False, e)
      | Close_raises e \<Rightarrow> Inr (False, e))"
      by (simp add: submit_financial_data_result submit_try_result split: fault.splits)
    then show ?thesis
      by (cases "fault env") auto
  qed
qed

theorem submit_total_witness:
  "fst (submit_financial_data ''Sales'' 100 50 ''Alice''
          (healthy_env\<lparr>fault := Execute_raises ''table not found''\<rparr>) (initial_world []))
     = Inr (False, ''table not found'')"
  using submit_total [of "''Sales''" 100 50 "''Alice''"
      "healthy_env\<lparr>fault := Execute_raises ''table not found''\<rparr>" "initial_world []"]
  by (simp add: run_submit healthy_env_def initial_world_def)

subsection \<open>No validation in the submission\<close>

text \<open>
  Claim C2 says that a negative revenue or a business unit outside the six of the form
  is rejected before any backend call. \<^verbatim>\<open>submit_financial_data\<close> has no such check:
  with revenue \<open>-10\<close>, and with the unit \<^verbatim>\<open>Legal\<close>, it returns \<^verbatim>\<open>True\<close> and the row
  is in the table.
\<close>

theorem no_validation_counterexample:
  "fst (submit_financial_data ''Sales'' (- 10) 0 ''Alice'' healthy_env (initial_world []))
     = Inr (True, make_submission_id 0)
   \<and> map revenue (financial_submissions
        (snd (submit_financial_data ''Sales'' (- 10) 0 ''Alice'' healthy_env (initial_world []))))
     = [- 10]
   \<and> fst (submit_financial_data ''Legal'' 100 50 ''Alice'' healthy_env (initial_world []))
     = Inr (True, make_submission_id 0)
   \<and> map business_unit (financial_submissions
        (snd (submit_financial_data ''Legal'' 100 50 ''Alice'' healthy_env (initial_world []))))
     = [''Legal'']"
  by (simp add: run_submit healthy_env_def initial_world_def)

lemma submit_financial_data_data_caches:
  "fetch_all_data_cache (snd (submit_financial_data bu r x sb env w)) = fetch_all_data_cache w"
  "get_summary_stats_cache (snd (submit_financial_data bu r x sb env w))
     = get_summary_stats_cache w"
proof -
  obtain rc w1 where conn: "get_databricks_connection env w = (rc, w1)"
    by (cases "get_databricks_connection env w")
  with get_databricks_connection_data_caches [of env w]
  have same: "fetch_all_data_cache w1 = fetch_all_data_cache w"
    "get_summary_stats_cache w1 = get_summary_stats_cache w"
    by simp_all
  obtain res tbl where tried:
    "submit_try bu r x sb env (financial_submissions w1) = (res, tbl)"
    by (cases "submit_try bu r x sb env (financial_submissions w1)")
  from conn same tried
  show "fetch_all_data_cache (snd (submit_financial_data bu r x sb env w))
          = fetch_all_data_cache w"
    and "get_summary_stats_cache (snd (submit_financial_data bu r x sb env w))
          = get_summary_stats_cache w"
    by (simp_all add: submit_financial_data_def split: sum.splits option.splits)
qed

lemma submit_try_no_fault:
  "fault env = No_fault \<Longrightarrow>
   submit_try bu r x sb env tbl =
     (Inr (True, make_submission_id (uuid4 env)),
      tbl @ [\<lparr>submission_id = make_submission_id (uuid4 env), business_unit = bu,
              submission_date = fst (datetime_now env), revenue = r, expenses = x,
              profit_margin = derive_profit_margin r x, submitted_by = sb,
              created_at = snd (datetime_now env)\<rparr>])"
  by (simp add: submit_try_def connection_cursor_def execute_insert_def cursor_close_def
      Let_def)

text \<open>
  Claim C2, amended. \<^verbatim>\<open>submit_financial_data\<close> checks none of its arguments: for every
  business unit, revenue and expenses, negative ones included, when a connection is
  available and no cursor operation raises, it appends the row as given (with profit
  margin \<open>0\<close> when the revenue is not positive) and returns \<^verbatim>\<open>True\<close> with the
  identifier. The function itself leaves both read-cache entries as they are.
\<close>

theorem submit_without_validation:
  assumes "fst (get_databricks_connection env w) = Inr (Some c)"
    and "fault env = No_fault"
  shows "fst (submit_financial_data bu r x sb env w) = Inr (True, make_submission_id (uuid4 env))
    \<and> (\<exists>row. financial_submissions (snd (submit_financial_data bu r x sb env w))
                = financial_submissions w @ [row]
           \<and> business_unit row = bu \<and> revenue row = r \<and> expenses row = x
           \<and> profit_margin row = (if 0 < r then (r - x) / r * 100 else 0))
    \<and> fetch_all_data_cache (snd (submit_financial_data bu r x sb env w)) = fetch_all_data_cache w
    \<and> get_summary_stats_cache (snd (submit_financial_data bu r x sb env w))
        = get_summary_stats_cache w"
proof -
  from assms have "fst (submit_financial_data bu r x sb env w)
      = Inr (True, make_submission_id (uuid4 env))"
    by (simp add: submit_financial_data_result submit_try_no_fault)
  moreover from assms have "\<exists>row. financial_submissions (snd (submit_financial_data bu r x sb env w))
                = financial_submissions w @ [row]
           \<and> business_unit row = bu \<and> revenue row = r \<and> expenses row = x
           \<and> profit_margin row = (if 0 < r then (r - x) / r * 100 else 0)"
    by (simp add: submit_financial_data_table submit_try_no_fault derive_profit_margin_def)
  ultimately show ?thesis
    by (simp add: submit_financial_data_data_caches)
qed

theorem submit_without_validation_witness:
  "fst (get_databricks_connection healthy_env (initial_world [])) = Inr (Some (Connection 1))
   \<and> fault healthy_env = No_fault
   \<and> fst (submit_financial_data ''Legal'' (- 10) (- 5) ''Alice'' healthy_env (initial_world []))
       = Inr (True, make_submission_id 0)
   \<and> fetch_all_data_cache
       (snd (submit_financial_data ''Legal'' (- 10) (- 5) ''Alice'' healthy_env (initial_world [])))
       = None"
proof -
  have conn: "fst (get_databricks_connection healthy_env (initial_world []))
                = Inr (Some (Connection 1))"
    by (simp add: get_databricks_connection_def cache_resource_def
        get_databricks_connection_body_def healthy_env_def initial_world_def)
  have quiet: "fault healthy_env = No_fault"
    by (simp add: healthy_env_def)
  from submit_without_validation [OF conn quiet, of "''Legal''" "- 10" "- 5" "''Alice''"]
    conn quiet show ?thesis
    by (simp add: healthy_env_def initial_world_def)
qed

subsection \<open>A failed connection is cached\<close>

text \<open>
  Claim C5 says that a failed connection is not cached and that the next call tries to
  connect again. The function returns \<^verbatim>\<open>None\<close> from its \<^verbatim>\<open>except\<close> branch, and
  \<^verbatim>\<open>st.cache_resource\<close> stores that value: after a call in which the backend was
  unreachable, a call in which it is reachable still returns \<^verbatim>\<open>None\<close>.
\<close>

theorem failed_connection_cached_counterexample:
  "fst (get_databricks_connection (healthy_env\<lparr>connect_outcome := Inl ''unreachable''\<rparr>)
          (initial_world [])) = Inr None
   \<and> get_databricks_connection_body healthy_env = Inr (Some (Connection 1))
   \<and> fst (get_databricks_connection healthy_env
          (snd (get_databricks_connection (healthy_env\<lparr>connect_outcome := Inl ''unreachable''\<rparr>)
                  (initial_world [])))) = Inr None"
  by (simp add: get_databricks_connection_def cache_resource_def
      get_databricks_connection_body_def healthy_env_def initial_world_def)

text \<open>
  Claim C5, amended. When nothing is cached and connection establishment fails,
  \<^verbatim>\<open>get_databricks_connection\<close> returns \<^verbatim>\<open>None\<close> (no exception and no error value),
  the \<^verbatim>\<open>None\<close> is stored, and every later call, in any environment, returns the stored
  \<^verbatim>\<open>None\<close> and leaves the state as it is: the connection is not tried again.
\<close>

theorem failed_connection_cached:
  assumes "connection_cache w = None" and "connect_outcome env = Inl e"
  shows "fst (get_databricks_connection env w) = Inr None
    \<and> connection_cache (snd (get_databricks_connection env w)) = Some None
    \<and> get_databricks_connection env' (snd (get_databricks_connection env w))
        = (Inr None, snd (get_databricks_connection env w))"
  using assms
  by (simp add: get_databricks_connection_def cache_resource_def
      get_databricks_connection_body_def)

theorem failed_connection_cached_witness:
  "connection_cache (initial_world []) = None
   \<and> connect_outcome (healthy_env\<lparr>connect_outcome := Inl ''unreachable''\<rparr>) = Inl ''unreachable''
   \<and> connection_cache (snd (get_databricks_connection
         (healthy_env\<lparr>connect_outcome := Inl ''unreachable''\<rparr>) (initial_world []))) = Some None"
proof -
  have empty: "connection_cache (initial_world []) = None"
    by (simp add: initial_world_def)
  have down: "connect_outcome (healthy_env\<lparr>connect_outcome := Inl ''unreachable''\<rparr>)
                = Inl ''unreachable''"
    by simp
  from failed_connection_cached [OF empty down] empty down show ?thesis
    by simp
qed

subsection \<open>Sorting\<close>

lemma mset_insert_desc: "mset (insert_desc key x ys) = add_mset x (mset ys)"
  by (induction ys) simp_all

lemma mset_order_by_desc: "mset (order_by_desc key xs) = mset xs"
  by (induction xs) (simp_all add: order_by_desc_def mset_insert_desc)

lemma set_insert_desc: "set (insert_desc key x ys) = insert x (set ys)"
  by (induction ys) auto

lemma set_order_by_desc: "set (order_by_desc key xs) = set xs"
  using mset_order_by_desc [of key xs] by (metis set_mset_mset)

lemma sorted_desc_insert_desc:
  "sorted_desc key ys \<Longrightarrow> sorted_desc key (insert_desc key x ys)"
  by (induction ys) (auto simp: sorted_desc_def set_insert_desc)

lemma sorted_desc_order_by_desc: "sorted_desc key (order_by_desc key xs)"
proof (induction xs)
  case Nil
  show ?case by (simp add: order_by_desc_def sorted_desc_def)
next
  case (Cons x xs)
  then show ?case
    using sorted_desc_insert_desc [of key "order_by_desc key xs" x]
    by (simp add: order_by_desc_def)
qed

lemma sorted_desc_take: "sorted_desc key xs \<Longrightarrow> sorted_desc key (take n xs)"
  unfolding sorted_desc_def by (rule sorted_wrt_take)

lemma recent_ok_select_recent: "recent_ok (select_recent env tbl)"
  by (simp add: recent_ok_def select_recent_def sorted_desc_take sorted_desc_order_by_desc)

lemma recent_ok_Nil: "recent_ok []"
  by (simp add: recent_ok_def sorted_desc_def)

subsection \<open>The read functions, by cache hit and miss\<close>

lemma fetch_all_data_try_cases:
  "fetch_all_data_try env tbl =
     (if fault env = No_fault then Inr (select_recent env tbl)
      else Inl (case fault env of Cursor_raises e \<Rightarrow> e | Execute_raises e \<Rightarrow> e
                | Fetchall_raises e \<Rightarrow> e | Close_raises e \<Rightarrow> e))"
  by (simp add: fetch_all_data_try_def connection_cursor_def execute_select_def
      cursor_fetchall_def cursor_close_def split: fault.splits)

lemma get_summary_stats_try_cases:
  "get_summary_stats_try env tbl =
     (if fault env = No_fault then Inr (select_summary env tbl)
      else Inl (case fault env of Cursor_raises e \<Rightarrow> e | Execute_raises e \<Rightarrow> e
                | Fetchall_raises e \<Rightarrow> e | Close_raises e \<Rightarrow> e))"
  by (simp add: get_summary_stats_try_def connection_cursor_def execute_select_def
      cursor_fetchall_def cursor_close_def split: fault.splits)

lemma fetch_all_data_body_eq:
  "fetch_all_data_body env w =
     (Inr (case fst (get_databricks_connection env w) of
             Inr (Some c) \<Rightarrow>
               if fault env = No_fault then select_recent env (financial_submissions w) else []
           | _ \<Rightarrow> []),
      snd (get_databricks_connection env w))"
proof -
  obtain rc w1 where conn: "get_databricks_connection env w = (rc, w1)"
    by (cases "get_databricks_connection env w")
  with get_databricks_connection_table [of env w]
    get_databricks_connection_returns [of env w]
  have "financial_submissions w1 = financial_submissions w" and "\<exists>c. rc = Inr c"
    by simp_all
  with conn show ?thesis
    by (auto simp: fetch_all_data_body_def fetch_all_data_try_cases split: option.splits)
qed

lemma get_summary_stats_body_eq:
  "get_summary_stats_body env w =
     (Inr (case fst (get_databricks_connection env w) of
             Inr (Some c) \<Rightarrow>
               if fault env = No_fault then select_summary env (financial_submissions w) else []
           | _ \<Rightarrow> []),
      snd (get_databricks_connection env w))"
proof -
  obtain rc w1 where conn: "get_databricks_connection env w = (rc, w1)"
    by (cases "get_databricks_connection env w")
  with get_databricks_connection_table [of env w]
    get_databricks_connection_returns [of env w]
  have "financial_submissions w1 = financial_submissions w" and "\<exists>c. rc = Inr c"
    by simp_all
  with conn show ?thesis
    by (auto simp: get_summary_stats_body_def get_summary_stats_try_cases split: option.splits)
qed

lemma fetch_all_data_hit:
  "cache_data_lookup 30 (clock env) (fetch_all_data_cache w) = Some df \<Longrightarrow>
   fetch_all_data env w = (Inr df, w)"
  by (simp add: fetch_all_data_def)

lemma fetch_all_data_miss:
  "cache_data_lookup 30 (clock env) (fetch_all_data_cache w) = None \<Longrightarrow>
   fetch_all_data env w =
     (fst (fetch_all_data_body env w),
      (snd (get_databricks_connection env w))
        \<lparr>fetch_all_data_cache :=
           Some (clock env,
             case fst (get_databricks_connection env w) of
               Inr (Some c) \<Rightarrow>
                 if fault env = No_fault then select_recent env (financial_submissions w) else []
             | _ \<Rightarrow> [])\<rparr>)"
  by (simp add: fetch_all_data_def fetch_all_data_body_eq)

lemma get_summary_stats_hit:
  "cache_data_lookup 30 (clock env) (get_summary_stats_cache w) = Some df \<Longrightarrow>
   get_summary_stats env w = (Inr df, w)"
  by (simp add: get_summary_stats_def)

lemma get_summary_stats_miss:
  "cache_data_lookup 30 (clock env) (get_summary_stats_cache w) = None \<Longrightarrow>
   get_summary_stats env w =
     (fst (get_summary_stats_body env w),
      (snd (get_databricks_connection env w))
        \<lparr>get_summary_stats_cache :=
           Some (clock env,
             case fst (get_databricks_connection env w) of
               Inr (Some c) \<Rightarrow>
                 if fault env = No_fault then select_summary env (financial_submissions w) else []
             | _ \<Rightarrow> [])\<rparr>)"
  by (simp add: get_summary_stats_def get_summary_stats_body_eq)

lemma cache_data_lookup_Some:
  "cache_data_lookup ttl now entry = Some v \<Longrightarrow> \<exists>t. entry = Some (t, v)"
  by (auto simp: cache_data_lookup_def split: option.splits if_splits)

subsection \<open>The cache entries stay well formed\<close>

lemma recent_ok_body: "\<exists>df. fst (fetch_all_data_body env w) = Inr df \<and> recent_ok df"
  by (simp add: fetch_all_data_body_eq recent_ok_Nil recent_ok_select_recent
      split: sum.splits option.splits)

lemma summary_sorted_body:
  "\<exists>rows. fst (get_summary_stats_body env w) = Inr rows \<and> sorted_desc total_revenue rows"
  by (simp add: get_summary_stats_body_eq select_summary_def sorted_desc_order_by_desc
      split: sum.splits option.splits) (simp add: sorted_desc_def)

lemma fetch_all_data_recent_ok:
  assumes "caches_ok w"
  shows "\<exists>df. fst (fetch_all_data env w) = Inr df \<and> recent_ok df"
proof (cases "cache_data_lookup 30 (clock env) (fetch_all_data_cache w)")
  case None
  then show ?thesis
    using recent_ok_body [of env w] by (simp add: fetch_all_data_miss)
next
  case (Some df)
  with cache_data_lookup_Some [OF Some] assms show ?thesis
    by (auto simp: fetch_all_data_hit caches_ok_def)
qed

lemma get_summary_stats_sorted:
  assumes "caches_ok w"
  shows "\<exists>rows. fst (get_summary_stats env w) = Inr rows \<and> sorted_desc total_revenue rows"
proof (cases "cache_data_lookup 30 (clock env) (get_summary_stats_cache w)")
  case None
  then show ?thesis
    using summary_sorted_body [of env w] by (simp add: get_summary_stats_miss)
next
  case (Some rows)
  with cache_data_lookup_Some [OF Some] assms show ?thesis
    by (auto simp: get_summary_stats_hit caches_ok_def)
qed

lemma caches_ok_connection: "caches_ok w \<Longrightarrow> caches_ok (snd (get_databricks_connection env w))"
  by (simp add: caches_ok_def get_databricks_connection_data_caches)

lemma caches_ok_submit:
  "caches_ok w \<Longrightarrow> caches_ok (snd (submit_financial_data bu r x sb env w))"
  by (simp add: caches_ok_def submit_financial_data_data_caches)

lemma caches_ok_clear: "caches_ok (cache_data_clear w)"
  by (simp add: caches_ok_def cache_data_clear_def)

lemma show_data_entry_form_world:
  "snd (show_data_entry_form f env w) = w
   \<or> snd (show_data_entry_form f env w)
        = snd (submit_financial_data (selected_business_unit f) (entered_revenue f)
                 (entered_expenses f) (entered_submitted_by f) env w)
   \<or> snd (show_data_entry_form f env w)
        = cache_data_clear (snd (submit_financial_data (selected_business_unit f)
             (entered_revenue f) (entered_expenses f) (entered_submitted_by f) env w))"
  by (simp add: show_data_entry_form_def split: prod.splits sum.splits)

lemma caches_ok_form: "caches_ok w \<Longrightarrow> caches_ok (snd (show_data_entry_form f env w))"
  using show_data_entry_form_world [of f env w] caches_ok_submit caches_ok_clear
  by metis

lemma caches_ok_fetch:
  assumes "caches_ok w"
  shows "caches_ok (snd (fetch_all_data env w))"
proof (cases "cache_data_lookup 30 (clock env) (fetch_all_data_cache w)")
  case None
  from assms have "caches_ok (snd (get_databricks_connection env w))"
    by (rule caches_ok_connection)
  with None show ?thesis
    by (simp add: fetch_all_data_miss caches_ok_def recent_ok_Nil recent_ok_select_recent
        split: sum.splits option.splits)
next
  case (Some df)
  with assms show ?thesis
    by (simp add: fetch_all_data_hit)
qed

lemma caches_ok_summary:
  assumes "caches_ok w"
  shows "caches_ok (snd (get_summary_stats env w))"
proof (cases "cache_data_lookup 30 (clock env) (get_summary_stats_cache w)")
  case None
  from assms have "caches_ok (snd (get_databricks_connection env w))"
    by (rule caches_ok_connection)
  moreover have "sorted_desc total_revenue ([] :: summary_row list)"
    by (simp add: sorted_desc_def)
  ultimately show ?thesis
    using None
    by (simp add: get_summary_stats_miss caches_ok_def select_summary_def
        sorted_desc_order_by_desc split: sum.splits option.splits)
next
  case (Some df)
  with assms show ?thesis
    by (simp add: get_summary_stats_hit)
qed

lemma reachable_caches_ok: "reachable w \<Longrightarrow> caches_ok w"
proof (induction rule: reachable.induct)
  case (start tbl)
  show ?case by (simp add: caches_ok_def initial_world_def)
next
  case (other_writer w tbl)
  then show ?case by (simp add: caches_ok_def)
next
  case (connect w env)
  then show ?case by (simp add: caches_ok_connection)
next
  case (submit w bu r x sb env)
  then show ?case by (simp add: caches_ok_submit)
next
  case (form w f env)
  then show ?case by (simp add: caches_ok_form)
next
  case (fetch w env)
  then show ?case by (simp add: caches_ok_fetch)
next
  case (summary w env)
  then show ?case by (simp add: caches_ok_summary)
next
  case (refresh w)
  show ?case by (rule caches_ok_clear)
qed

lemmas run_connection =
  get_databricks_connection_def cache_resource_def get_databricks_connection_body_def

lemmas run_cursor =
  connection_cursor_def execute_select_def cursor_fetchall_def cursor_close_def

lemmas run_summary =
  get_summary_stats_def cache_data_lookup_def get_summary_stats_body_def
  get_summary_stats_try_def select_summary_def group_keys_def aggregate_def group_rows_def
  order_by_desc_def Let_def

lemmas run_fetch =
  fetch_all_data_def cache_data_lookup_def fetch_all_data_body_def
  fetch_all_data_try_def select_recent_def order_by_desc_def

subsection \<open>Recent rows\<close>

text \<open>
  Claim C6. In every state the program can reach, whatever the table holds,
  \<^verbatim>\<open>fetch_all_data\<close> returns a DataFrame (it raises nothing) of at most 100 rows whose
  \<^verbatim>\<open>submission_date\<close> values are in descending order; this holds for a fresh answer,
  for a cached one and for the empty DataFrame of a failure.
\<close>

theorem fetch_recent_bounded_sorted:
  assumes "reachable w"
  shows "\<exists>df. fst (fetch_all_data env w) = Inr df
           \<and> length df \<le> 100 \<and> sorted_desc submission_date df"
  using fetch_all_data_recent_ok [OF reachable_caches_ok [OF assms], of env]
  by (simp add: recent_ok_def)

theorem fetch_recent_bounded_sorted_witness:
  "reachable (snd (fetch_all_data failing_env (initial_world tie_table)))
   \<and> (\<exists>df. fst (fetch_all_data later_env
               (snd (fetch_all_data failing_env (initial_world tie_table)))) = Inr df
         \<and> length df \<le> 100 \<and> sorted_desc submission_date df)
   \<and> reachable (initial_world tie_table)
   \<and> (\<exists>df. fst (fetch_all_data healthy_env (initial_world tie_table)) = Inr df
         \<and> map submission_date df = [2, 1]
         \<and> length df \<le> 100 \<and> sorted_desc submission_date df)"
proof -
  have r0: "reachable (initial_world tie_table)"
    by (rule reachable.start)
  then have r1: "reachable (snd (fetch_all_data failing_env (initial_world tie_table)))"
    by (rule reachable.fetch)
  have run: "map submission_date
      (projr (fst (fetch_all_data healthy_env (initial_world tie_table)))) = [2, 1]"
    by (simp add: run_fetch run_connection run_cursor healthy_env_def initial_world_def
        tie_table_def example_row_def)
  from fetch_recent_bounded_sorted [OF r1, of later_env]
    fetch_recent_bounded_sorted [OF r0, of healthy_env] r0 r1 run
  show ?thesis
    by auto
qed

subsection \<open>Order of the summary\<close>

text \<open>
  Claim C7 says that summary rows with equal \<^verbatim>\<open>total_revenue\<close> come in ascending
  order of the unit name. The query has \<^verbatim>\<open>ORDER BY total_revenue DESC\<close> and no second
  key. With one row for Sales and one for HR, both of revenue 100, an engine that
  enumerates the table in insertion order returns Sales before HR, and one that
  enumerates it in reverse returns HR before Sales.
\<close>

theorem ties_not_by_name_counterexample:
  "fst (get_summary_stats healthy_env (initial_world tie_table)) =
     Inr [\<lparr>summary_unit = ''Sales'', submission_count = 1, total_revenue = 100,
            total_expenses = 50, avg_profit_margin = 50\<rparr>,
          \<lparr>summary_unit = ''HR'', submission_count = 1, total_revenue = 100,
            total_expenses = 80, avg_profit_margin = 20\<rparr>]
   \<and> \<not> ordered_with_ties_by_name
        [\<lparr>summary_unit = ''Sales'', submission_count = 1, total_revenue = 100,
            total_expenses = 50, avg_profit_margin = 50\<rparr>,
          \<lparr>summary_unit = ''HR'', submission_count = 1, total_revenue = 100,
            total_expenses = 80, avg_profit_margin = 20\<rparr>]
   \<and> map summary_unit (projr (fst (get_summary_stats (healthy_env\<lparr>scan := rev\<rparr>)
        (initial_world tie_table)))) = [''HR'', ''Sales'']"
  by (simp add: run_summary run_connection run_cursor healthy_env_def initial_world_def
      tie_table_def example_row_def ordered_with_ties_by_name_def summary_before_def)

text \<open>
  Claim C7, amended. In every state the program can reach, whatever the table holds,
  the rows that \<^verbatim>\<open>get_summary_stats\<close> returns are in descending order of
  \<^verbatim>\<open>total_revenue\<close>; the order of rows with equal totals is left to the engine.
\<close>

theorem summary_sorted_by_total_revenue:
  assumes "reachable w"
  shows "\<exists>rows. fst (get_summary_stats env w) = Inr rows \<and> sorted_desc total_revenue rows"
  using get_summary_stats_sorted [OF reachable_caches_ok [OF assms], of env]
  by simp

theorem summary_sorted_by_total_revenue_witness:
  "reachable (initial_world margins_table)
   \<and> (\<exists>rows. fst (get_summary_stats healthy_env (initial_world margins_table)) = Inr rows
         \<and> map total_revenue rows = [400, 100]
         \<and> sorted_desc total_revenue rows)"
proof -
  have r0: "reachable (initial_world margins_table)"
    by (rule reachable.start)
  have run: "map total_revenue
      (projr (fst (get_summary_stats healthy_env (initial_world margins_table)))) = [400, 100]"
    by (simp add: run_summary run_connection run_cursor healthy_env_def initial_world_def
        margins_table_def example_row_def)
  from summary_sorted_by_total_revenue [OF r0, of healthy_env] r0 run show ?thesis
    by auto
qed

subsection \<open>Sums and means of the summary\<close>

lemma sum_list_miss:
  "k \<notin> set us \<Longrightarrow> sum_list (map (\<lambda>u. if k = u then (v::real) else 0) us) = 0"
  by (induction us) auto

lemma sum_list_pick:
  "distinct us \<Longrightarrow> k \<in> set us \<Longrightarrow>
   sum_list (map (\<lambda>u. if k = u then (v::real) else 0) us) = v"
  by (induction us) (auto simp: sum_list_miss)

lemma sum_list_groups:
  assumes "distinct us" and "business_unit ` set tbl \<subseteq> set us"
  shows "sum_list (map (\<lambda>u. sum_list (map g (group_rows u tbl))) us)
           = (sum_list (map g tbl) :: real)"
  using assms(2)
proof (induction tbl)
  case Nil
  show ?case by (simp add: group_rows_def)
next
  case (Cons r tbl)
  have split: "\<And>u. sum_list (map g (group_rows u (r # tbl)))
      = (if business_unit r = u then g r else 0) + sum_list (map g (group_rows u tbl))"
    by (simp add: group_rows_def)
  from Cons.prems have "business_unit r \<in> set us" by simp
  with assms(1) have "sum_list (map (\<lambda>u. if business_unit r = u then g r else 0) us) = g r"
    by (rule sum_list_pick)
  moreover from Cons have "sum_list (map (\<lambda>u. sum_list (map g (group_rows u tbl))) us)
      = sum_list (map g tbl)"
    by simp
  ultimately show ?case
    by (simp add: split sum_list_addf)
qed

lemma distinct_group_keys: "distinct (group_keys env tbl)"
  by (simp add: group_keys_def)

lemma set_group_keys: "set (group_keys env tbl) = business_unit ` set (scan env tbl)"
  by (simp add: group_keys_def)

lemma sum_list_order_by_desc:
  "sum_list (map f (order_by_desc key xs)) = (sum_list (map f xs) :: real)"
proof -
  have "mset (map f (order_by_desc key xs)) = mset (map f xs)"
    by (simp add: mset_order_by_desc)
  then have "sum_mset (mset (map f (order_by_desc key xs))) = sum_mset (mset (map f xs))"
    by (rule arg_cong)
  then show ?thesis
    by (simp only: sum_mset_sum_list)
qed

lemma select_summary_sums:
  assumes "mset (scan env tbl) = mset tbl"
  shows "sum_list (map total_revenue (select_summary env tbl)) = sum_list (map revenue tbl)"
    and "sum_list (map total_expenses (select_summary env tbl)) = sum_list (map expenses tbl)"
proof -
  from assms have "set (scan env tbl) = set tbl"
    by (rule mset_eq_setD)
  then have keys: "business_unit ` set tbl \<subseteq> set (group_keys env tbl)"
    by (simp add: set_group_keys)
  have "sum_list (map total_revenue (select_summary env tbl))
      = sum_list (map (\<lambda>u. sum_list (map revenue (group_rows u tbl))) (group_keys env tbl))"
    by (simp add: select_summary_def sum_list_order_by_desc aggregate_def Let_def comp_def)
  also have "\<dots> = sum_list (map revenue tbl)"
    using distinct_group_keys keys by (rule sum_list_groups)
  finally show "sum_list (map total_revenue (select_summary env tbl))
      = sum_list (map revenue tbl)" .
  have "sum_list (map total_expenses (select_summary env tbl))
      = sum_list (map (\<lambda>u. sum_list (map expenses (group_rows u tbl))) (group_keys env tbl))"
    by (simp add: select_summary_def sum_list_order_by_desc aggregate_def Let_def comp_def)
  also have "\<dots> = sum_list (map expenses tbl)"
    using distinct_group_keys keys by (rule sum_list_groups)
  finally show "sum_list (map total_expenses (select_summary env tbl))
      = sum_list (map expenses tbl)" .
qed

lemma group_rows_nonempty: "u \<in> business_unit ` set tbl \<Longrightarrow> group_rows u tbl \<noteq> []"
  by (auto simp: group_rows_def filter_empty_conv)

lemma select_summary_means:
  assumes "mset (scan env tbl) = mset tbl"
  shows "list_all (mean_of_stored_margins tbl) (select_summary env tbl)"
proof -
  from assms have "set (scan env tbl) = set tbl"
    by (rule mset_eq_setD)
  then have "\<forall>u \<in> set (group_keys env tbl). group_rows u tbl \<noteq> []"
    by (simp add: set_group_keys group_rows_nonempty)
  then show ?thesis
    by (simp add: list_all_iff select_summary_def set_order_by_desc
        mean_of_stored_margins_def aggregate_def Let_def)
qed

text \<open>
  Claim C8. When \<^verbatim>\<open>get_summary_stats\<close> computes its answer from the table (no valid
  cache entry, a connection, no cursor operation raising, the engine enumerating
  exactly the rows of the table), then for every table the \<^verbatim>\<open>total_revenue\<close> values
  of the summary add up to the sum of all \<^verbatim>\<open>revenue\<close> values, the \<^verbatim>\<open>total_expenses\<close>
  values add up to the sum of all \<^verbatim>\<open>expenses\<close> values, and in every summary row
  \<^verbatim>\<open>avg_profit_margin\<close> is the sum of the stored \<^verbatim>\<open>profit_margin\<close> values of the rows
  of its unit divided by their number. (Floats are read as reals.) In the witness
  the mean for Sales is 75, while the margin of the summed revenue 400 and expenses 50
  would be 87.5.
\<close>

theorem summary_sums:
  assumes miss: "cache_data_lookup 30 (clock env) (get_summary_stats_cache w) = None"
    and conn: "fst (get_databricks_connection env w) = Inr (Some c)"
    and quiet: "fault env = No_fault"
    and perm: "mset (scan env (financial_submissions w)) = mset (financial_submissions w)"
  shows "\<exists>rows. fst (get_summary_stats env w) = Inr rows
    \<and> sum_list (map total_revenue rows) = sum_list (map revenue (financial_submissions w))
    \<and> sum_list (map total_expenses rows) = sum_list (map expenses (financial_submissions w))
    \<and> list_all (mean_of_stored_margins (financial_submissions w)) rows"
proof -
  from miss conn quiet
  have "fst (get_summary_stats env w) = Inr (select_summary env (financial_submissions w))"
    by (simp add: get_summary_stats_miss get_summary_stats_body_eq)
  with select_summary_sums [OF perm] select_summary_means [OF perm] show ?thesis
    by simp
qed

theorem summary_sums_witness:
  "cache_data_lookup 30 (clock healthy_env) (get_summary_stats_cache (initial_world margins_table))
     = None
   \<and> fst (get_databricks_connection healthy_env (initial_world margins_table))
       = Inr (Some (Connection 1))
   \<and> fault healthy_env = No_fault
   \<and> mset (scan healthy_env (financial_submissions (initial_world margins_table)))
       = mset (financial_submissions (initial_world margins_table))
   \<and> (\<exists>rows. fst (get_summary_stats healthy_env (initial_world margins_table)) = Inr rows
        \<and> sum_list (map total_revenue rows) = 500
        \<and> sum_list (map total_expenses rows) = 130
        \<and> map avg_profit_margin rows = [75, 20])"
proof -
  have miss: "cache_data_lookup 30 (clock healthy_env)
      (get_summary_stats_cache (initial_world margins_table)) = None"
    by (simp add: cache_data_lookup_def initial_world_def)
  have conn: "fst (get_databricks_connection healthy_env (initial_world margins_table))
      = Inr (Some (Connection 1))"
    by (simp add: run_connection healthy_env_def initial_world_def)
  have quiet: "fault healthy_env = No_fault"
    by (simp add: healthy_env_def)
  have perm: "mset (scan healthy_env (financial_submissions (initial_world margins_table)))
      = mset (financial_submissions (initial_world margins_table))"
    by (simp add: healthy_env_def)
  have run: "map avg_profit_margin
      (projr (fst (get_summary_stats healthy_env (initial_world margins_table)))) = [75, 20]"
    by (simp add: run_summary run_connection run_cursor healthy_env_def initial_world_def
        margins_table_def example_row_def)
  have totals: "sum_list (map revenue (financial_submissions (initial_world margins_table))) = 500"
    "sum_list (map expenses (financial_submissions (initial_world margins_table))) = 130"
    by (simp_all add: initial_world_def margins_table_def example_row_def)
  from summary_sums [OF miss conn quiet perm] run totals miss conn quiet perm
  show ?thesis
    by auto
qed

subsection \<open>A successful submission through the form clears the read caches\<close>

lemma connection_cache_after:
  "fst (get_databricks_connection env w) = Inr v \<Longrightarrow>
   connection_cache (snd (get_databricks_connection env w)) = Some v"
  by (auto simp: get_databricks_connection_def cache_resource_def
      split: option.splits sum.splits)

lemma connection_cached:
  "connection_cache w = Some v \<Longrightarrow> get_databricks_connection env w = (Inr v, w)"
  by (simp add: get_databricks_connection_def cache_resource_def)

lemma submit_financial_data_connection_cache:
  "connection_cache (snd (submit_financial_data bu r x sb env w))
     = connection_cache (snd (get_databricks_connection env w))"
proof -
  obtain rc w1 where conn: "get_databricks_connection env w = (rc, w1)"
    by (cases "get_databricks_connection env w")
  obtain res tbl where tried:
    "submit_try bu r x sb env (financial_submissions w1) = (res, tbl)"
    by (cases "submit_try bu r x sb env (financial_submissions w1)")
  from conn tried show ?thesis
    by (simp add: submit_financial_data_def split: sum.splits option.splits)
qed

lemma submit_try_success:
  assumes "fst (submit_try bu r x sb env tbl) = Inr (True, sid)"
  shows "\<exists>row. snd (submit_try bu r x sb env tbl) = tbl @ [row] \<and> submission_id row = sid"
  using assms
  by (auto simp: submit_try_def connection_cursor_def execute_insert_def cursor_close_def
      Let_def split: fault.splits)

lemma submit_success:
  assumes "fst (submit_financial_data bu r x sb env w) = Inr (True, sid)"
  shows "\<exists>row c. financial_submissions (snd (submit_financial_data bu r x sb env w))
                   = financial_submissions w @ [row]
           \<and> submission_id row = sid
           \<and> connection_cache (snd (submit_financial_data bu r x sb env w)) = Some (Some c)"
proof -
  obtain v where v: "fst (get_databricks_connection env w) = Inr v"
    using get_databricks_connection_returns by blast
  with assms obtain c where c: "v = Some c"
    by (cases v) (simp_all add: submit_financial_data_result)
  with v assms have "fst (submit_try bu r x sb env (financial_submissions w)) = Inr (True, sid)"
    by (simp add: submit_financial_data_result split: sum.splits)
  then obtain row where "snd (submit_try bu r x sb env (financial_submissions w))
      = financial_submissions w @ [row]" and "submission_id row = sid"
    using submit_try_success by blast
  moreover from v c have "connection_cache (snd (submit_financial_data bu r x sb env w))
      = Some (Some c)"
    by (simp add: submit_financial_data_connection_cache connection_cache_after)
  ultimately show ?thesis
    using v c by (simp add: submit_financial_data_table)
qed

lemma form_success:
  assumes "fst (show_data_entry_form f env w) = Inr (Submission_succeeded sid)"
  shows "fst (submit_financial_data (selected_business_unit f) (entered_revenue f)
                (entered_expenses f) (entered_submitted_by f) env w) = Inr (True, sid)
    \<and> snd (show_data_entry_form f env w)
        = cache_data_clear (snd (submit_financial_data (selected_business_unit f)
            (entered_revenue f) (entered_expenses f) (entered_submitted_by f) env w))"
proof -
  obtain rs w1 where sub: "submit_financial_data (selected_business_unit f) (entered_revenue f)
      (entered_expenses f) (entered_submitted_by f) env w = (rs, w1)"
    by (cases "submit_financial_data (selected_business_unit f) (entered_revenue f)
      (entered_expenses f) (entered_submitted_by f) env w")
  with assms show ?thesis
    by (auto simp: show_data_entry_form_def split: if_splits sum.splits prod.splits)
qed

text \<open>
  Claim C3. When the submit branch of the form reports success, both entries of
  \<^verbatim>\<open>st.cache_data\<close> are empty afterwards (they are cleared, not refilled), the table
  is the old one with the new row at its end, and the next \<^verbatim>\<open>fetch_all_data\<close> and the
  next \<^verbatim>\<open>get_summary_stats\<close>, in any environment in which no cursor operation raises,
  return the answer of their query on the table that holds the new row.
\<close>

theorem successful_submit_invalidates:
  assumes "fst (show_data_entry_form f env w) = Inr (Submission_succeeded sid)"
  shows "fetch_all_data_cache (snd (show_data_entry_form f env w)) = None
    \<and> get_summary_stats_cache (snd (show_data_entry_form f env w)) = None
    \<and> (\<exists>row. financial_submissions (snd (show_data_entry_form f env w))
                 = financial_submissions w @ [row]
          \<and> submission_id row = sid
          \<and> (fault env' = No_fault \<longrightarrow>
               fst (fetch_all_data env' (snd (show_data_entry_form f env w)))
                 = Inr (select_recent env' (financial_submissions w @ [row]))
               \<and> fst (get_summary_stats env' (snd (show_data_entry_form f env w)))
                 = Inr (select_summary env' (financial_submissions w @ [row]))))"
proof -
  let ?s = "snd (submit_financial_data (selected_business_unit f) (entered_revenue f)
              (entered_expenses f) (entered_submitted_by f) env w)"
  let ?w = "snd (show_data_entry_form f env w)"
  from form_success [OF assms]
  have ok: "fst (submit_financial_data (selected_business_unit f) (entered_revenue f)
                (entered_expenses f) (entered_submitted_by f) env w) = Inr (True, sid)"
    and after: "?w = cache_data_clear ?s"
    by simp_all
  from submit_success [OF ok] obtain row c
    where tbl: "financial_submissions ?s = financial_submissions w @ [row]"
      and sid: "submission_id row = sid"
      and cc: "connection_cache ?s = Some (Some c)"
    by blast
  from after have cleared: "fetch_all_data_cache ?w = None" "get_summary_stats_cache ?w = None"
    by (simp_all add: cache_data_clear_def)
  from after tbl cc have tbl': "financial_submissions ?w = financial_submissions w @ [row]"
    and cc': "connection_cache ?w = Some (Some c)"
    by (simp_all add: cache_data_clear_def)
  from cc' have conn: "get_databricks_connection env' ?w = (Inr (Some c), ?w)"
    by (rule connection_cached)
  have "fault env' = No_fault \<Longrightarrow>
      fst (fetch_all_data env' ?w) = Inr (select_recent env' (financial_submissions w @ [row]))"
    using cleared(1) conn tbl'
    by (simp add: fetch_all_data_miss fetch_all_data_body_eq cache_data_lookup_def)
  moreover have "fault env' = No_fault \<Longrightarrow>
      fst (get_summary_stats env' ?w)
        = Inr (select_summary env' (financial_submissions w @ [row]))"
    using cleared(2) conn tbl'
    by (simp add: get_summary_stats_miss get_summary_stats_body_eq cache_data_lookup_def)
  ultimately show ?thesis
    using cleared tbl' sid by blast
qed

theorem successful_submit_invalidates_witness:
  "fst (show_data_entry_form example_form healthy_env cached_world)
     = Inr (Submission_succeeded (make_submission_id 0))
   \<and> fetch_all_data_cache cached_world = Some (0, [])
   \<and> fetch_all_data_cache (snd (show_data_entry_form example_form healthy_env cached_world))
       = None
   \<and> get_summary_stats_cache (snd (show_data_entry_form example_form healthy_env cached_world))
       = None"
proof -
  have ok: "fst (show_data_entry_form example_form healthy_env cached_world)
     = Inr (Submission_succeeded (make_submission_id 0))"
    by (simp add: show_data_entry_form_def run_submit example_form_def healthy_env_def
        cached_world_def initial_world_def)
  from successful_submit_invalidates [OF ok] ok show ?thesis
    by (simp add: cached_world_def)
qed

subsection \<open>A failed fetch is cached\<close>

lemma failed_fetch_recent:
  assumes "fetch_fails env w" and "clock env' < clock env + 30"
    and "cache_data_lookup 30 (clock env) (fetch_all_data_cache w) = None"
  shows "fst (fetch_all_data env w) = Inr []"
    and "fetch_all_data env' (snd (fetch_all_data env w)) = (Inr [], snd (fetch_all_data env w))"
proof -
  obtain v where v: "fst (get_databricks_connection env w) = Inr v"
    using get_databricks_connection_returns by blast
  from assms(1) v have empty: "(case fst (get_databricks_connection env w) of
             Inr (Some c) \<Rightarrow>
               if fault env = No_fault then select_recent env (financial_submissions w) else []
           | _ \<Rightarrow> []) = []"
    by (auto simp: fetch_fails_def split: option.splits)
  with assms(3) show "fst (fetch_all_data env w) = Inr []"
    by (simp add: fetch_all_data_miss fetch_all_data_body_eq)
  from assms(3) empty have "fetch_all_data_cache (snd (fetch_all_data env w))
      = Some (clock env, [])"
    by (simp add: fetch_all_data_miss)
  with assms(2) have "cache_data_lookup 30 (clock env')
      (fetch_all_data_cache (snd (fetch_all_data env w))) = Some []"
    by (simp add: cache_data_lookup_def)
  then show "fetch_all_data env' (snd (fetch_all_data env w))
      = (Inr [], snd (fetch_all_data env w))"
    by (rule fetch_all_data_hit)
qed

lemma failed_fetch_summary:
  assumes "fetch_fails env w" and "clock env' < clock env + 30"
    and "cache_data_lookup 30 (clock env) (get_summary_stats_cache w) = None"
  shows "fst (get_summary_stats env w) = Inr []"
    and "get_summary_stats env' (snd (get_summary_stats env w))
           = (Inr [], snd (get_summary_stats env w))"
proof -
  obtain v where v: "fst (get_databricks_connection env w) = Inr v"
    using get_databricks_connection_returns by blast
  from assms(1) v have empty: "(case fst (get_databricks_connection env w) of
             Inr (Some c) \<Rightarrow>
               if fault env = No_fault then select_summary env (financial_submissions w) else []
           | _ \<Rightarrow> []) = []"
    by (auto simp: fetch_fails_def split: option.splits)
  with assms(3) show "fst (get_summary_stats env w) = Inr []"
    by (simp add: get_summary_stats_miss get_summary_stats_body_eq)
  from assms(3) empty have "get_summary_stats_cache (snd (get_summary_stats env w))
      = Some (clock env, [])"
    by (simp add: get_summary_stats_miss)
  with assms(2) have "cache_data_lookup 30 (clock env')
      (get_summary_stats_cache (snd (get_summary_stats env w))) = Some []"
    by (simp add: cache_data_lookup_def)
  then show "get_summary_stats env' (snd (get_summary_stats env w))
      = (Inr [], snd (get_summary_stats env w))"
    by (rule get_summary_stats_hit)
qed

text \<open>
  Claim C4 says that a failing fetch returns the error and is not cached. The
  \<^verbatim>\<open>except\<close> branch of \<^verbatim>\<open>fetch_all_data\<close> returns an empty DataFrame, which
  \<^verbatim>\<open>st.cache_data\<close> stores: after a call at time 0 in which \<^verbatim>\<open>execute\<close> raised, the
  call at time 10 returns the stored empty DataFrame, although the table has two rows
  and the backend would now answer.
\<close>

theorem failed_fetch_cached_counterexample:
  "fst (fetch_all_data failing_env (initial_world tie_table)) = Inr []
   \<and> fetch_all_data_cache (snd (fetch_all_data failing_env (initial_world tie_table)))
       = Some (0, [])
   \<and> fst (fetch_all_data later_env (snd (fetch_all_data failing_env (initial_world tie_table))))
       = Inr []
   \<and> map submission_date (projr (fst (fetch_all_data_body later_env
        (snd (fetch_all_data failing_env (initial_world tie_table)))))) = [2, 1]"
  by (simp add: run_fetch run_connection run_cursor failing_env_def later_env_def
      healthy_env_def initial_world_def tie_table_def example_row_def)

text \<open>
  Claim C4, amended. When \<^verbatim>\<open>fetch_all_data\<close> or \<^verbatim>\<open>get_summary_stats\<close> finds no valid
  cache entry and the fetch fails, the caller gets an empty DataFrame (no error value
  and no exception), the empty DataFrame is stored, and every call less than 30 seconds
  after the failing one returns the stored empty DataFrame without going to the
  backend.
\<close>

theorem failed_fetch_cached:
  assumes "fetch_fails env w" and "clock env' < clock env + 30"
  shows "(cache_data_lookup 30 (clock env) (fetch_all_data_cache w) = None \<longrightarrow>
            fst (fetch_all_data env w) = Inr []
            \<and> fetch_all_data env' (snd (fetch_all_data env w))
                = (Inr [], snd (fetch_all_data env w)))
    \<and> (cache_data_lookup 30 (clock env) (get_summary_stats_cache w) = None \<longrightarrow>
            fst (get_summary_stats env w) = Inr []
            \<and> get_summary_stats env' (snd (get_summary_stats env w))
                = (Inr [], snd (get_summary_stats env w)))"
  using failed_fetch_recent [OF assms] failed_fetch_summary [OF assms]
  by simp

theorem failed_fetch_cached_witness:
  "fetch_fails failing_env (initial_world tie_table)
   \<and> clock later_env < clock failing_env + 30
   \<and> cache_data_lookup 30 (clock failing_env) (fetch_all_data_cache (initial_world tie_table))
       = None
   \<and> cache_data_lookup 30 (clock failing_env) (get_summary_stats_cache (initial_world tie_table))
       = None
   \<and> fst (fetch_all_data failing_env (initial_world tie_table)) = Inr []
   \<and> fst (fetch_all_data later_env (snd (fetch_all_data failing_env (initial_world tie_table))))
       = Inr []
   \<and> fst (get_summary_stats failing_env (initial_world tie_table)) = Inr []
   \<and> fst (get_summary_stats later_env
        (snd (get_summary_stats failing_env (initial_world tie_table)))) = Inr []"
proof -
  have fails: "fetch_fails failing_env (initial_world tie_table)"
    by (simp add: fetch_fails_def failing_env_def)
  have within: "clock later_env < clock failing_env + 30"
    by (simp add: later_env_def failing_env_def healthy_env_def)
  have miss: "cache_data_lookup 30 (clock failing_env)
      (fetch_all_data_cache (initial_world tie_table)) = None"
    "cache_data_lookup 30 (clock failing_env)
      (get_summary_stats_cache (initial_world tie_table)) = None"
    by (simp_all add: cache_data_lookup_def initial_world_def)
  from failed_fetch_cached [OF fails within] fails within miss show ?thesis
    by simp
qed

end
